theory Spec2Isabelle
  imports Main "HOL-Library.Word" "HOL-Library.Finite_Map" "HOL-Library.Sublist"
begin

unbundle bit_operations_syntax

section \<open>Errors\<close>

text \<open>
  The sources signal errors by throwing string values. Each throw site becomes a
  constructor; errors raised by collaborators whose code is not part of the modelled
  files (the markup parser, tag constructors, node renderers, block handlers) are
  \<open>CollaboratorError\<close>.
\<close>

datatype error =
    EvaluationError          \<comment> \<open>context.hpp: \<open>throw QString("Can't evaluate expression %1")\<close>\<close>
  | UnknownTagError string   \<comment> \<open>blockbody.cpp: the thrown message\<close>
  | CollaboratorError string

section \<open>Context (context.hpp)\<close>

text \<open>
  \<open>Context::Type\<close>. The enumerator \<open>Nil\<close> is written \<open>Type_Nil\<close>, since \<open>Nil\<close> is the
  empty list of HOL.
\<close>

datatype Type = Hash | Array | String | NumberInt | NumberFloat | BooleanTrue | BooleanFalse
  | Type_Nil

text \<open>
  A \<open>double\<close> is its IEEE-754 binary64 bit pattern; \<open>double_eq\<close> is the \<open>==\<close> of C++ on
  it: a NaN equals nothing, the two zeros are equal, everything else compares by bits.
\<close>

type_synonym double = "64 word"

definition double_isnan :: "double \<Rightarrow> bool" where
  "double_isnan w = (0x7FF0000000000000 < (w AND 0x7FFFFFFFFFFFFFFF))"

definition double_eq :: "double \<Rightarrow> double \<Rightarrow> bool" where
  "double_eq a b = (\<not> double_isnan a \<and> \<not> double_isnan b \<and>
     (a = b \<or> (a AND 0x7FFFFFFFFFFFFFFF) = 0 \<and> (b AND 0x7FFFFFFFFFFFFFFF) = 0))"

text \<open>
  The class carries every member at once, whatever \<open>type_\<close> says: \<open>type_\<close>, \<open>hash_\<close>
  (a \<open>QHash<QString, Context>\<close>: a finite map with unique keys), \<open>array_\<close>, \<open>string_\<close>
  and the union \<open>number_\<close>. The members are named \<open>type_m\<close>, \<open>hash_m\<close>, ... (an
  identifier cannot end in an underscore here). The union is kept as its two views
  \<open>number_i\<close> and \<open>number_f\<close>; the sources only ever read the view that \<open>type_\<close>
  selects.
\<close>

datatype Context = Context (type_m: Type) (hash_m: "(string, Context) fmap")
  (array_m: "Context list") (string_m: string) (number_i: "32 word") (number_f: double)

text \<open>
  The constructors. Members a constructor does not mention are default-constructed
  (empty hash, empty list, null string). The source leaves the union, or the view
  of it that the variant does not select, uninitialised; no function reads it for
  the Contexts built here, and it is written as 0. (\<open>Context(Type)\<close>, which can build
  a number whose selected view is uninitialised, is left out.)
\<close>

definition Context_default :: Context where
  "Context_default = Context Type_Nil fmempty [] [] 0 0"

definition Context_of_Hash :: "(string, Context) fmap \<Rightarrow> Context" where
  "Context_of_Hash h = Context Hash h [] [] 0 0"

definition Context_of_Array :: "Context list \<Rightarrow> Context" where
  "Context_of_Array a = Context Array fmempty a [] 0 0"

definition Context_of_QString :: "string \<Rightarrow> Context" where
  "Context_of_QString s = Context String fmempty [] s 0 0"

definition Context_of_int :: "32 word \<Rightarrow> Context" where
  "Context_of_int v = Context NumberInt fmempty [] [] v 0"

definition Context_of_double :: "double \<Rightarrow> Context" where
  "Context_of_double v = Context NumberFloat fmempty [] [] 0 v"

definition Context_of_bool :: "bool \<Rightarrow> Context" where
  "Context_of_bool v = Context (if v then BooleanTrue else BooleanFalse) fmempty [] [] 0 0"

text \<open>\<open>const extern Context kNilContext\<close>: a default-constructed Context.\<close>

definition kNilContext :: Context where
  "kNilContext = Context_default"

text \<open>The copy constructor copies \<open>type_\<close> and the one member that \<open>type_\<close> selects.\<close>

definition Context_copy :: "Context \<Rightarrow> Context" where
  "Context_copy ctx =
     (case type_m ctx of
        Hash \<Rightarrow> Context Hash (hash_m ctx) [] [] 0 0
      | Array \<Rightarrow> Context Array fmempty (array_m ctx) [] 0 0
      | String \<Rightarrow> Context String fmempty [] (string_m ctx) 0 0
      | NumberInt \<Rightarrow> Context NumberInt fmempty [] [] (number_i ctx) 0
      | NumberFloat \<Rightarrow> Context NumberFloat fmempty [] [] 0 (number_f ctx)
      | BooleanTrue \<Rightarrow> Context BooleanTrue fmempty [] [] 0 0
      | BooleanFalse \<Rightarrow> Context BooleanFalse fmempty [] [] 0 0
      | Type_Nil \<Rightarrow> Context Type_Nil fmempty [] [] 0 0)"

definition isHash :: "Context \<Rightarrow> bool" where
  "isHash c = (type_m c = Hash)"

definition isArray :: "Context \<Rightarrow> bool" where
  "isArray c = (type_m c = Array)"

definition isString :: "Context \<Rightarrow> bool" where
  "isString c = (type_m c = String)"

definition isNumber :: "Context \<Rightarrow> bool" where
  "isNumber c = (type_m c = NumberInt \<or> type_m c = NumberFloat)"

definition isBoolean :: "Context \<Rightarrow> bool" where
  "isBoolean c = (type_m c = BooleanTrue \<or> type_m c = BooleanFalse)"

definition isNil :: "Context \<Rightarrow> bool" where
  "isNil c = (type_m c = Type_Nil)"

lemma size_fmran_le:
  assumes "z \<in> fmran' h"
  shows "size z \<le> size_fmap (\<lambda>_. 0) size h"
proof -
  from assms obtain k where "fmlookup h k = Some z"
    by (auto simp: fmran'_def)
  then have mem: "(k, z) \<in> fset (fset_of_fmap h)"
    by (simp add: fset_of_fmap.rep_eq set_of_map_def)
  have "(case (k, z) of (a, x) \<Rightarrow> Suc (size x))
          \<le> (\<Sum>x\<in>fset (fset_of_fmap h). case x of (a, x) \<Rightarrow> Suc (size x))"
    by (rule member_le_sum[OF mem]) auto
  then show ?thesis by (simp add: case_prod_unfold)
qed

text \<open>
  \<open>operator==\<close>. \<open>QHash::operator==\<close> holds when both hashes have the same keys and
  the values under each key are \<open>==\<close> (\<open>fmrel\<close>); \<open>QList::operator==\<close> when both
  lists have the same length and are \<open>==\<close> element by element (\<open>list_all2\<close>). (Qt
  answers true at once for two containers that share their storage; storage is not
  part of this model.)
\<close>

function Context_eq :: "Context \<Rightarrow> Context \<Rightarrow> bool" where
  "Context_eq c other =
     (if type_m c \<noteq> type_m other then False
      else (case type_m c of
          Hash \<Rightarrow> fmrel Context_eq (hash_m c) (hash_m other)
        | Array \<Rightarrow> list_all2 Context_eq (array_m c) (array_m other)
        | String \<Rightarrow> string_m c = string_m other
        | NumberInt \<Rightarrow> number_i c = number_i other
        | NumberFloat \<Rightarrow> double_eq (number_f c) (number_f other)
        | BooleanTrue \<Rightarrow> True
        | BooleanFalse \<Rightarrow> True
        | Type_Nil \<Rightarrow> True))"
  by pat_completeness auto
termination
proof (relation "measure (\<lambda>(c, other). size c)")
  show "wf (measure (\<lambda>(c, other). size c))" by simp
next
  fix c other :: Context and z yb
  assume "z \<in> fmran' (hash_m c)"
  then have "size z \<le> size_fmap (\<lambda>_. 0) size (hash_m c)" by (rule size_fmran_le)
  then show "((z, yb), (c, other)) \<in> measure (\<lambda>(c, other). size c)"
    by (cases c) simp
next
  fix c other :: Context and z yb
  assume "z \<in> set (array_m c)"
  then have "size z \<le> size_list size (array_m c)" by (simp add: size_list_estimation')
  then show "((z, yb), (c, other)) \<in> measure (\<lambda>(c, other). size c)"
    by (cases c) simp
qed

declare Context_eq.simps [simp del]

text \<open>
  \<open>toString\<close>. \<open>QString::number\<close> belongs to Qt, not to this program: the two
  overloads used are parameters.
\<close>

definition toString :: "(32 word \<Rightarrow> string) \<Rightarrow> (double \<Rightarrow> string) \<Rightarrow> Context \<Rightarrow> string" where
  "toString number_of_int number_of_double c =
     (case type_m c of
        BooleanTrue \<Rightarrow> ''true''
      | BooleanFalse \<Rightarrow> ''false''
      | NumberInt \<Rightarrow> number_of_int (number_i c)
      | NumberFloat \<Rightarrow> number_of_double (number_f c)
      | _ \<Rightarrow> string_m c)"

definition toBool :: "Context \<Rightarrow> bool" where
  "toBool c = (if type_m c = BooleanTrue then True else False)"

definition isTruthy :: "Context \<Rightarrow> bool" where
  "isTruthy c =
     (case type_m c of
        Type_Nil \<Rightarrow> False
      | BooleanFalse \<Rightarrow> False
      | _ \<Rightarrow> True)"

text \<open>
  \<open>push_back\<close> mutates the object: the model returns the object afterwards. The
  list stores a copy of its argument, made by the copy constructor.
\<close>

definition push_back :: "Context \<Rightarrow> Context \<Rightarrow> Context" where
  "push_back this ctx =
     (if isArray this
      then Context (type_m this) (hash_m this) (array_m this @ [Context_copy ctx])
             (string_m this) (number_i this) (number_f this)
      else this)"

definition Context_size :: "Context \<Rightarrow> int" where
  "Context_size c =
     (case type_m c of
        Hash \<Rightarrow> int (fcard (fmdom (hash_m c)))
      | Array \<Rightarrow> int (length (array_m c))
      | String \<Rightarrow> int (length (string_m c))
      | _ \<Rightarrow> 0)"

section \<open>Expression\<close>

text \<open>
  Modelled from the spec: the class \<open>Expression\<close> (expression.hpp is not among the
  sources). The spec gives its variants as Literal(Context value), LookupKey(name) and
  Lookup(ordered sequence of child Expressions); \<open>Context::evaluate\<close> uses
  \<open>isLookupKey\<close>, \<open>lookupKey\<close>, \<open>isLookup\<close> and \<open>lookups\<close> of it.
\<close>

datatype Expression =
    Literal (literal: Context)
  | LookupKey (lookupKey: string)
  | Lookup (lookups: "Expression list")

definition isLookupKey :: "Expression \<Rightarrow> bool" where
  "isLookupKey e = (case e of LookupKey _ \<Rightarrow> True | _ \<Rightarrow> False)"

definition isLookup :: "Expression \<Rightarrow> bool" where
  "isLookup e = (case e of Lookup _ \<Rightarrow> True | _ \<Rightarrow> False)"

text \<open>
  \<open>Context::evaluate\<close>. The loop over \<open>expression.lookups()\<close> is \<open>evaluate_lookups\<close>,
  whose first argument is the pointer \<open>ctx\<close>. The source returns references into the
  tree; nothing is mutated meanwhile, so values do.
\<close>

fun evaluate :: "Context \<Rightarrow> Expression \<Rightarrow> error + Context"
  and evaluate_lookups :: "Context \<Rightarrow> Expression list \<Rightarrow> error + Context" where
  "evaluate this (LookupKey key) =
     (if isHash this
      then (case fmlookup (hash_m this) key of
              Some v \<Rightarrow> Inr v
            | None \<Rightarrow> Inr kNilContext)
      else Inr kNilContext)"
| "evaluate this (Lookup ls) = evaluate_lookups this ls"
| "evaluate this (Literal v) = Inl EvaluationError"
| "evaluate_lookups ctx [] = Inr ctx"
| "evaluate_lookups ctx (lookup # rest) =
     (case evaluate ctx lookup of
        Inl e \<Rightarrow> Inl e
      | Inr result \<Rightarrow> if isNil result then Inr result else evaluate_lookups result rest)"

text \<open>
  An expression is Lookup-shaped when it is a LookupKey, or a Lookup whose steps are
  Lookup-shaped in turn. (A predicate of the statements below, not of the program.)
\<close>

fun lookup_shaped :: "Expression \<Rightarrow> bool" where
  "lookup_shaped (Literal v) = False"
| "lookup_shaped (LookupKey key) = True"
| "lookup_shaped (Lookup ls) = list_all lookup_shaped ls"

section \<open>BlockBody (blockbody.cpp)\<close>

text \<open>
  Modelled from the spec: \<open>Component\<close> (tokenizer.hpp is not among the sources), with
  \<open>text\<close> for a Text component and \<open>innerText\<close> for an Object or Tag component. The
  \<open>Tokenizer\<close> is a forward-only cursor: its state is the list of components it has
  yet to hand out, \<open>next()\<close> takes the first and returns \<open>nullptr\<close> on the empty list.
  (The components are taken as already scanned: a fault of the scanner itself, on
  an unterminated marker, is not part of this model.)
\<close>

datatype Component = Text string | Object string | Tag string

type_synonym Tokenizer = "Component list"

datatype TagKind = AssignTag | CommentTag | CaptureTag | IncrementTag | DecrementTag

text \<open>
  The nodes \<open>BlockBody::parse\<close> makes. \<open>'v\<close> is the class \<open>Variable\<close>, \<open>'t\<close> the tag
  objects; their code is not among the sources.
\<close>

datatype ('v, 't) Node = TextNode string | ObjectNode 'v | TagNode TagKind 't

text \<open>
  What \<open>BlockBody::parse\<close> calls and the sources do not hold, as parameters; each may
  throw.
  \<^item> \<open>consume_Id\<close>: \<open>Parser parser(innerText); parser.consume(Token::Type::Id)\<close>, giving
    the tag name and the parser afterwards (its unread markup);
  \<^item> \<open>new_Variable\<close>: \<open>Variable(innerText)\<close>;
  \<^item> \<open>new_Tag\<close>: \<open>std::make_shared<...Tag>(tagName, parser)\<close>;
  \<^item> \<open>Tag_parse\<close>: \<open>tag->parse(tokenizer)\<close>, giving the tag afterwards and the number
    of components it took from the tokenizer.
\<close>

record ('v, 't) collaborators =
  consume_Id :: "string \<Rightarrow> error + string \<times> string"
  new_Variable :: "string \<Rightarrow> error + 'v"
  new_Tag :: "TagKind \<Rightarrow> string \<Rightarrow> string \<Rightarrow> error + 't"
  Tag_parse :: "TagKind \<Rightarrow> 't \<Rightarrow> Tokenizer \<Rightarrow> error + 't \<times> nat"

text \<open>
  An \<open>UnknownTagHandler\<close> gets the tag name (\<open>None\<close> is the null \<open>QStringRef()\<close>) and
  the tokenizer; it throws or returns, leaving the tokenizer as returned here.
\<close>

type_synonym UnknownTagHandler = "string option \<Rightarrow> Tokenizer \<Rightarrow> error + Tokenizer"

definition defaultUnknownTagHandler :: UnknownTagHandler where
  "defaultUnknownTagHandler tagName tokenizer =
     (case tagName of
        Some name \<Rightarrow> Inl (UnknownTagError (''Unknown tag '' @ [CHR 0x27] @ name @ [CHR 0x27]))
      | None \<Rightarrow> Inr tokenizer)"

text \<open>
  The \<open>while\<close> loop of \<open>BlockBody::parse\<close>: the tokenizer, then \<open>nodes_\<close>. The result is
  \<open>nodes_\<close> and the tokenizer when \<open>parse\<close> returns.
\<close>

fun parse_loop :: "('v, 't) collaborators \<Rightarrow> UnknownTagHandler \<Rightarrow> Tokenizer
    \<Rightarrow> ('v, 't) Node list \<Rightarrow> error + ('v, 't) Node list \<times> Tokenizer" where
  "parse_loop K unknownTagHandler [] nodes =
     (case unknownTagHandler None [] of
        Inl e \<Rightarrow> Inl e
      | Inr tokenizer \<Rightarrow> Inr (nodes, tokenizer))"
| "parse_loop K unknownTagHandler (Text text # tokenizer) nodes =
     parse_loop K unknownTagHandler tokenizer (nodes @ [TextNode text])"
| "parse_loop K unknownTagHandler (Object innerText # tokenizer) nodes =
     (case new_Variable K innerText of
        Inl e \<Rightarrow> Inl e
      | Inr v \<Rightarrow> parse_loop K unknownTagHandler tokenizer (nodes @ [ObjectNode v]))"
| "parse_loop K unknownTagHandler (Tag innerText # tokenizer) nodes =
     (case consume_Id K innerText of
        Inl e \<Rightarrow> Inl e
      | Inr (tagName, parser) \<Rightarrow>
          if tagName = ''assign'' then
            (case new_Tag K AssignTag tagName parser of
               Inl e \<Rightarrow> Inl e
             | Inr tag \<Rightarrow>
                 parse_loop K unknownTagHandler tokenizer (nodes @ [TagNode AssignTag tag]))
          else if tagName = ''comment'' then
            (case new_Tag K CommentTag tagName parser of
               Inl e \<Rightarrow> Inl e
             | Inr tag \<Rightarrow>
                 (case Tag_parse K CommentTag tag tokenizer of
                    Inl e \<Rightarrow> Inl e
                  | Inr (tag', n) \<Rightarrow>
                      parse_loop K unknownTagHandler (drop n tokenizer)
                        (nodes @ [TagNode CommentTag tag'])))
          else if tagName = ''capture'' then
            (case new_Tag K CaptureTag tagName parser of
               Inl e \<Rightarrow> Inl e
             | Inr tag \<Rightarrow>
                 (case Tag_parse K CaptureTag tag tokenizer of
                    Inl e \<Rightarrow> Inl e
                  | Inr (tag', n) \<Rightarrow>
                      parse_loop K unknownTagHandler (drop n tokenizer)
                        (nodes @ [TagNode CaptureTag tag'])))
          else if tagName = ''increment'' then
            (case new_Tag K IncrementTag tagName parser of
               Inl e \<Rightarrow> Inl e
             | Inr tag \<Rightarrow>
                 parse_loop K unknownTagHandler tokenizer (nodes @ [TagNode IncrementTag tag]))
          else if tagName = ''decrement'' then
            (case new_Tag K DecrementTag tagName parser of
               Inl e \<Rightarrow> Inl e
             | Inr tag \<Rightarrow>
                 parse_loop K unknownTagHandler tokenizer (nodes @ [TagNode DecrementTag tag]))
          else
            (case unknownTagHandler (Some tagName) tokenizer of
               Inl e \<Rightarrow> Inl e
             | Inr tokenizer' \<Rightarrow> Inr (nodes, tokenizer')))"

text \<open>\<open>BlockBody::parse\<close>: \<open>nodes_.clear()\<close>, then the loop.\<close>

definition BlockBody_parse :: "('v, 't) collaborators \<Rightarrow> UnknownTagHandler \<Rightarrow> Tokenizer
    \<Rightarrow> error + ('v, 't) Node list \<times> Tokenizer" where
  "BlockBody_parse K unknownTagHandler tokenizer = parse_loop K unknownTagHandler tokenizer []"

text \<open>
  \<open>BlockBody::render\<close>. \<open>node->render(context)\<close> is a virtual call, so the renderer of
  a node is a parameter: it gives the node's text and the context afterwards (the
  context is passed by non-const reference), or throws. The loop carries the nodes
  left, the context and \<open>str\<close>.
\<close>

fun render_loop :: "('n \<Rightarrow> 'c \<Rightarrow> error + string \<times> 'c) \<Rightarrow> 'n list \<Rightarrow> 'c \<Rightarrow> string
    \<Rightarrow> error + string \<times> 'c" where
  "render_loop node_render [] context str = Inr (str, context)"
| "render_loop node_render (node # nodes) context str =
     (case node_render node context of
        Inl e \<Rightarrow> Inl e
      | Inr (s, context') \<Rightarrow> render_loop node_render nodes context' (str @ s))"

definition BlockBody_render :: "('n \<Rightarrow> 'c \<Rightarrow> error + string \<times> 'c) \<Rightarrow> 'n list \<Rightarrow> 'c
    \<Rightarrow> error + string \<times> 'c" where
  "BlockBody_render node_render nodes context = render_loop node_render nodes context []"

text \<open>
  Modelled from the spec: the renderers of the node classes (their code is not among
  the sources). A TextNode renders its literal text; the renderers of Variable and
  of the tags are parameters.
\<close>

fun Node_render :: "('v \<Rightarrow> Context \<Rightarrow> error + string \<times> Context)
    \<Rightarrow> (TagKind \<Rightarrow> 't \<Rightarrow> Context \<Rightarrow> error + string \<times> Context)
    \<Rightarrow> ('v, 't) Node \<Rightarrow> Context \<Rightarrow> error + string \<times> Context" where
  "Node_render Variable_render Tag_render (TextNode text) context = Inr (text, context)"
| "Node_render Variable_render Tag_render (ObjectNode v) context = Variable_render v context"
| "Node_render Variable_render Tag_render (TagNode kind tag) context = Tag_render kind tag context"

text \<open>
  Modelled from the spec: stand-ins for the collaborators, to run examples with. The
  leading Id that the Markup Parser consumes is taken to be the first blank-free
  word of the markup; every constructor keeps what it is given, and a tag's own
  \<open>parse\<close> takes nothing from the tokenizer.
\<close>

definition example_consume_Id :: "string \<Rightarrow> error + string \<times> string" where
  "example_consume_Id innerText =
     (let s = dropWhile (\<lambda>c. c = CHR '' '') innerText;
          name = takeWhile (\<lambda>c. c \<noteq> CHR '' '') s
      in if name = [] then Inl (CollaboratorError ''Id expected'')
         else Inr (name, dropWhile (\<lambda>c. c \<noteq> CHR '' '') s))"

definition example_collaborators :: "(string, string \<times> string) collaborators" where
  "example_collaborators =
     \<lparr> consume_Id = example_consume_Id,
       new_Variable = (\<lambda>innerText. Inr innerText),
       new_Tag = (\<lambda>kind tagName parser. Inr (tagName, parser)),
       Tag_parse = (\<lambda>kind tag tokenizer. Inr (tag, 0)) \<rparr>"

section \<open>Properties of Context\<close>

lemma Context_eq_type_mismatch: "type_m c \<noteq> type_m other \<Longrightarrow> \<not> Context_eq c other"
  by (subst Context_eq.simps) simp

lemma isNil_kNilContext: "isNil kNilContext"
  by (simp add: isNil_def kNilContext_def Context_default_def)

lemma evaluate_LookupKey_miss:
  "\<not> isHash c \<or> fmlookup (hash_m c) key = None \<Longrightarrow> evaluate c (LookupKey key) = Inr kNilContext"
  by auto

text \<open>
  The loop over a path \<open>xs @ ys\<close>: when the walk over \<open>xs\<close> has returned early, on a
  step that gave a Nil, that Nil is the result; otherwise the walk goes on over \<open>ys\<close>
  from where \<open>xs\<close> led.
\<close>

lemma evaluate_lookups_append:
  "evaluate_lookups c (xs @ ys) =
     (case evaluate_lookups c xs of
        Inl e \<Rightarrow> Inl e
      | Inr r \<Rightarrow> if xs \<noteq> [] \<and> isNil r then Inr r else evaluate_lookups r ys)"
proof (induction xs arbitrary: c)
  case Nil
  show ?case by simp
next
  case (Cons x xs)
  show ?case
  proof (cases "evaluate c x")
    case (Inl e)
    then show ?thesis by simp
  next
    case (Inr r0)
    show ?thesis
    proof (cases "isNil r0")
      case True
      with Inr show ?thesis by simp
    next
      case False
      show ?thesis
      proof (cases xs)
        case Nil
        with Inr False show ?thesis by simp
      next
        case (Cons y ys')
        with Inr False Cons.IH [of r0] show ?thesis by (simp split: sum.splits)
      qed
    qed
  qed
qed

lemma lookup_shaped_no_fault:
  "lookup_shaped e \<Longrightarrow> \<exists>r. evaluate c e = Inr r"
  "list_all lookup_shaped ls \<Longrightarrow> \<exists>r. evaluate_lookups c ls = Inr r"
proof (induction c e and c ls rule: evaluate_evaluate_lookups.induct)
  case (1 this key)
  then show ?case by (simp split: option.splits)
next
  case (2 this ls)
  then show ?case by simp
next
  case (3 this v)
  then show ?case by simp
next
  case (4 ctx)
  then show ?case by simp
next
  case (5 ctx lookup rest)
  from 5 obtain r where r: "evaluate ctx lookup = Inr r" by auto
  show ?case
  proof (cases "isNil r")
    case True
    with r show ?thesis by simp
  next
    case False
    with 5 r show ?thesis by simp
  qed
qed

lemma evaluate_error_is_EvaluationError:
  "evaluate c e = Inl err \<Longrightarrow> err = EvaluationError"
  "evaluate_lookups c ls = Inl err \<Longrightarrow> err = EvaluationError"
  by (induction c e and c ls rule: evaluate_evaluate_lookups.induct)
     (auto split: if_splits option.splits sum.splits)

text \<open>
  \<open>Context::evaluate\<close> has no step that indexes an Array. A subscript step that is a
  Literal number is read by \<open>evaluate\<close> itself and raises: here index 5 of a
  one-element array (out of range) and index 0 of it (in range).
\<close>

theorem evaluate_array_index_step_raises:
  "Context_size (Context_of_Array [Context_of_int 7]) = 1
   \<and> evaluate (Context_of_Hash (fmupd ''items'' (Context_of_Array [Context_of_int 7]) fmempty))
        (Lookup [LookupKey ''items'', Literal (Context_of_int 5)]) = Inl EvaluationError
   \<and> evaluate (Context_of_Hash (fmupd ''items'' (Context_of_Array [Context_of_int 7]) fmempty))
        (Lookup [LookupKey ''items'', Literal (Context_of_int 0)]) = Inl EvaluationError"
  by (simp add: Context_of_Hash_def Context_of_Array_def Context_size_def isHash_def isNil_def)

text \<open>
  C3, amended. \<open>Context::evaluate\<close> does not fault on a missing key, nor on a
  LookupKey step applied to a Context that is not a Hash (an Array among them): such
  a step gives \<open>kNilContext\<close>, a Nil. When the walk over the steps \<open>pre\<close> of a Lookup
  has led to \<open>c'\<close> and the next step gives a Nil there, the Lookup evaluates to a Nil
  and no error is raised, whatever steps \<open>post\<close> follow: they are not evaluated, even
  if they would fault. A Lookup-shaped expression raises no error on any Context.
  There is no array-index step: a Literal step that the walk reaches raises the
  evaluation error, whatever the current Context and whatever the index.
\<close>

theorem evaluate_missing_data_is_Nil:
  "(\<not> isHash c \<or> fmlookup (hash_m c) key = None \<longrightarrow>
      evaluate c (LookupKey key) = Inr kNilContext \<and> isNil kNilContext)
   \<and> (isArray c \<longrightarrow> evaluate c (LookupKey key) = Inr kNilContext)
   \<and> (evaluate_lookups c pre = Inr c' \<and> evaluate c' step = Inr n \<and> isNil n \<longrightarrow>
        evaluate c (Lookup (pre @ step # post))
          = Inr (if pre \<noteq> [] \<and> isNil c' then c' else n)
        \<and> (\<exists>r. evaluate c (Lookup (pre @ step # post)) = Inr r \<and> isNil r))
   \<and> (lookup_shaped e \<longrightarrow> (\<exists>r. evaluate c e = Inr r))
   \<and> (evaluate_lookups c pre = Inr c' \<and> \<not> (pre \<noteq> [] \<and> isNil c') \<longrightarrow>
        evaluate c (Lookup (pre @ Literal v # post)) = Inl EvaluationError)"
proof (intro conjI impI)
  assume "\<not> isHash c \<or> fmlookup (hash_m c) key = None"
  then show "evaluate c (LookupKey key) = Inr kNilContext"
    by (rule evaluate_LookupKey_miss)
next
  show "isNil kNilContext" by (rule isNil_kNilContext)
next
  assume "isArray c"
  then have "\<not> isHash c" by (simp add: isArray_def isHash_def)
  then show "evaluate c (LookupKey key) = Inr kNilContext" by simp
next
  assume a: "evaluate_lookups c pre = Inr c' \<and> evaluate c' step = Inr n \<and> isNil n"
  then have step: "evaluate_lookups c' (step # post) = Inr n"
    by simp
  show eq: "evaluate c (Lookup (pre @ step # post))
          = Inr (if pre \<noteq> [] \<and> isNil c' then c' else n)"
    using a step by (simp add: evaluate_lookups_append del: evaluate_lookups.simps)
  show "\<exists>r. evaluate c (Lookup (pre @ step # post)) = Inr r \<and> isNil r"
    unfolding eq using a by simp
next
  assume "lookup_shaped e"
  then show "\<exists>r. evaluate c e = Inr r" by (rule lookup_shaped_no_fault)
next
  assume a: "evaluate_lookups c pre = Inr c' \<and> \<not> (pre \<noteq> [] \<and> isNil c')"
  have step: "evaluate_lookups c' (Literal v # post) = Inl EvaluationError"
    by simp
  show "evaluate c (Lookup (pre @ Literal v # post)) = Inl EvaluationError"
    using a step by (simp add: evaluate_lookups_append del: evaluate_lookups.simps)
qed

theorem evaluate_missing_data_is_Nil_witness:
  "evaluate_lookups (Context_of_Hash (fmupd ''a'' (Context_of_Hash fmempty) fmempty))
      [LookupKey ''a''] = Inr (Context_of_Hash fmempty)
   \<and> fmlookup (hash_m (Context_of_Hash fmempty)) ''b'' = None
   \<and> evaluate (Context_of_Hash fmempty) (LookupKey ''b'') = Inr kNilContext
   \<and> evaluate (Context_of_Hash (fmupd ''a'' (Context_of_Hash fmempty) fmempty))
       (Lookup ([LookupKey ''a''] @ LookupKey ''b'' # [Literal kNilContext])) = Inr kNilContext
   \<and> evaluate (Context_of_Hash (fmupd ''a'' (Context_of_Hash fmempty) fmempty))
       (Lookup ([LookupKey ''a''] @ Literal (Context_of_int 0) # [])) = Inl EvaluationError
   \<and> isArray (Context_of_Array [])
   \<and> evaluate (Context_of_Array []) (LookupKey ''0'') = Inr kNilContext
   \<and> lookup_shaped (Lookup [LookupKey ''a'', Lookup [LookupKey ''b'']])
   \<and> evaluate kNilContext (Lookup [LookupKey ''a'', Lookup [LookupKey ''b'']]) = Inr kNilContext"
  using
    evaluate_missing_data_is_Nil [where c = "Context_of_Array []" and key = "''0''"
      and pre = "[]" and c' = "Context_of_Array []" and step = "LookupKey ''0''"
      and n = kNilContext and post = "[]" and e = "LookupKey ''0''"
      and v = kNilContext]
    evaluate_missing_data_is_Nil
      [where c = "Context_of_Hash (fmupd ''a'' (Context_of_Hash fmempty) fmempty)"
      and key = "''b''" and pre = "[LookupKey ''a'']" and c' = "Context_of_Hash fmempty"
      and step = "LookupKey ''b''" and n = kNilContext and post = "[Literal kNilContext]"
      and e = "LookupKey ''b''" and v = kNilContext]
    evaluate_missing_data_is_Nil
      [where c = "Context_of_Hash (fmupd ''a'' (Context_of_Hash fmempty) fmempty)"
      and key = "''b''" and pre = "[LookupKey ''a'']" and c' = "Context_of_Hash fmempty"
      and step = "LookupKey ''b''" and n = kNilContext and post = "[]"
      and e = "LookupKey ''b''" and v = "Context_of_int 0"]
    evaluate_missing_data_is_Nil [where c = "Context_of_Hash fmempty" and key = "''b''"
      and pre = "[]" and c' = "Context_of_Hash fmempty" and step = "LookupKey ''b''"
      and n = kNilContext and post = "[]" and e = "LookupKey ''b''" and v = kNilContext]
    evaluate_missing_data_is_Nil [where c = kNilContext and key = "''a''" and pre = "[]"
      and c' = kNilContext and step = "LookupKey ''a''" and n = kNilContext and post = "[]"
      and e = "Lookup [LookupKey ''a'', Lookup [LookupKey ''b'']]" and v = kNilContext]
  by (simp add: Context_of_Hash_def Context_of_Array_def isHash_def isArray_def isNil_def
      kNilContext_def Context_default_def)

text \<open>
  C4. \<open>operator==\<close> is false for two Contexts of different variants; so a NumberInt
  and a NumberFloat are unequal whatever their values, 1 and 1.0 among them.
\<close>

theorem Context_eq_cross_variant:
  "(type_m c \<noteq> type_m other \<longrightarrow> \<not> Context_eq c other)
   \<and> \<not> Context_eq (Context_of_int i) (Context_of_double d)
   \<and> \<not> Context_eq (Context_of_double d) (Context_of_int i)"
  by (simp add: Context_eq_type_mismatch Context_of_int_def Context_of_double_def)

theorem Context_eq_cross_variant_witness:
  "type_m (Context_of_int 1) \<noteq> type_m (Context_of_double 0x3FF0000000000000)
   \<and> \<not> Context_eq (Context_of_int 1) (Context_of_double 0x3FF0000000000000)"
  using Context_eq_cross_variant [of "Context_of_int 1" "Context_of_double 0x3FF0000000000000"]
  by (simp add: Context_of_int_def Context_of_double_def)

text \<open>
  A Lookup is not safe as such: one whose step is a Literal raises, since each step
  is read by \<open>evaluate\<close> itself.
\<close>

theorem evaluate_Lookup_of_Literal_raises:
  "isLookup (Lookup [Literal kNilContext])
   \<and> evaluate kNilContext (Lookup [Literal kNilContext]) = Inl EvaluationError"
  by (simp add: isLookup_def)

text \<open>
  C5, amended. \<open>Context::evaluate\<close> raises on every expression that is neither a
  Lookup nor a LookupKey. It returns a value, without faulting, on every LookupKey
  and on every Lookup-shaped expression (a Lookup whose steps, at any depth, are
  LookupKeys or Lookups). When it raises, the error is the evaluation error and the
  expression is not Lookup-shaped: it is, or holds as a step, an expression that is
  neither a Lookup nor a LookupKey.
\<close>

theorem evaluate_raises_only_on_non_lookup_step:
  "(\<not> isLookup e \<and> \<not> isLookupKey e \<longrightarrow> evaluate c e = Inl EvaluationError)
   \<and> (isLookupKey e \<longrightarrow> (\<exists>r. evaluate c e = Inr r))
   \<and> (lookup_shaped e \<longrightarrow> (\<exists>r. evaluate c e = Inr r))
   \<and> (evaluate c e = Inl err \<longrightarrow> err = EvaluationError \<and> \<not> lookup_shaped e)"
proof (intro conjI impI)
  assume "\<not> isLookup e \<and> \<not> isLookupKey e"
  then show "evaluate c e = Inl EvaluationError"
    by (cases e) (simp_all add: isLookup_def isLookupKey_def)
next
  assume "isLookupKey e"
  then have "lookup_shaped e" by (cases e) (simp_all add: isLookupKey_def)
  then show "\<exists>r. evaluate c e = Inr r" by (rule lookup_shaped_no_fault)
next
  assume "lookup_shaped e"
  then show "\<exists>r. evaluate c e = Inr r" by (rule lookup_shaped_no_fault)
next
  assume a: "evaluate c e = Inl err"
  then show "err = EvaluationError" by (rule evaluate_error_is_EvaluationError)
  show "\<not> lookup_shaped e"
  proof
    assume "lookup_shaped e"
    then obtain r where "evaluate c e = Inr r" using lookup_shaped_no_fault(1) by blast
    with a show False by simp
  qed
qed

theorem evaluate_raises_only_on_non_lookup_step_witness:
  "\<not> isLookup (Literal kNilContext) \<and> \<not> isLookupKey (Literal kNilContext)
   \<and> evaluate kNilContext (Literal kNilContext) = Inl EvaluationError
   \<and> isLookupKey (LookupKey ''a'')
   \<and> evaluate kNilContext (LookupKey ''a'') = Inr kNilContext
   \<and> lookup_shaped (Lookup [LookupKey ''a'', Lookup [LookupKey ''b'']])
   \<and> evaluate kNilContext (Lookup [LookupKey ''a'', Lookup [LookupKey ''b'']]) = Inr kNilContext
   \<and> evaluate (Context_of_Hash (fmupd ''a'' (Context_of_Array []) fmempty))
        (Lookup [LookupKey ''a'', Literal (Context_of_int 0)]) = Inl EvaluationError
   \<and> \<not> lookup_shaped (Lookup [LookupKey ''a'', Literal (Context_of_int 0)])"
  using
    evaluate_raises_only_on_non_lookup_step [of "Literal kNilContext" kNilContext EvaluationError]
    evaluate_raises_only_on_non_lookup_step [of "LookupKey ''a''" kNilContext EvaluationError]
    evaluate_raises_only_on_non_lookup_step
      [of "Lookup [LookupKey ''a'', Lookup [LookupKey ''b'']]" kNilContext EvaluationError]
    evaluate_raises_only_on_non_lookup_step
      [of "Lookup [LookupKey ''a'', Literal (Context_of_int 0)]"
        "Context_of_Hash (fmupd ''a'' (Context_of_Array []) fmempty)" EvaluationError]
  by (simp add: isLookup_def isLookupKey_def isHash_def isNil_def kNilContext_def
      Context_default_def Context_of_Hash_def Context_of_Array_def)

text \<open>
  C6. \<open>isTruthy\<close> is false exactly for the variants Nil and BooleanFalse; the integer
  0, the empty string, the empty array and the empty hash are truthy.
\<close>

theorem isTruthy_false_exactly_Nil_BooleanFalse:
  "(isTruthy c \<longleftrightarrow> type_m c \<noteq> Type_Nil \<and> type_m c \<noteq> BooleanFalse)
   \<and> isTruthy (Context_of_int 0)
   \<and> isTruthy (Context_of_QString [])
   \<and> isTruthy (Context_of_Array [])
   \<and> isTruthy (Context_of_Hash fmempty)"
  by (cases "type_m c") (simp_all add: isTruthy_def Context_of_int_def Context_of_QString_def
      Context_of_Array_def Context_of_Hash_def)

text \<open>
  C10. \<open>push_back\<close> on a Context that is not an Array returns normally and leaves the
  object as it was: the same variant, and the same answers of \<open>evaluate\<close>, \<open>toString\<close>,
  \<open>operator==\<close> (on either side) and \<open>size\<close>.
\<close>

theorem push_back_non_Array_unchanged:
  "\<not> isArray c \<Longrightarrow>
     push_back c v = c
     \<and> type_m (push_back c v) = type_m c
     \<and> evaluate (push_back c v) e = evaluate c e
     \<and> toString number_of_int number_of_double (push_back c v)
         = toString number_of_int number_of_double c
     \<and> Context_eq (push_back c v) other = Context_eq c other
     \<and> Context_eq other (push_back c v) = Context_eq other c
     \<and> Context_size (push_back c v) = Context_size c"
  by (simp add: push_back_def)

theorem push_back_non_Array_unchanged_witness:
  "\<not> isArray (Context_of_QString ''abc'')
   \<and> push_back (Context_of_QString ''abc'') (Context_of_int 1) = Context_of_QString ''abc''
   \<and> Context_size (push_back (Context_of_QString ''abc'') (Context_of_int 1)) = 3"
  using push_back_non_Array_unchanged [of "Context_of_QString ''abc''" "Context_of_int 1"]
  by (simp add: isArray_def Context_of_QString_def Context_size_def)

section \<open>Properties of BlockBody\<close>




text \<open>
  The tag name \<open>if\<close> is not among those \<open>BlockBody::parse\<close> tests for: at the top
  level \<open>{% if true %}T{% endif %}\<close> ends in the default handler, which throws on
  \<open>if\<close>; no tag node is made.
\<close>

theorem parse_if_reaches_unknown_tag_handler:
  "BlockBody_parse example_collaborators defaultUnknownTagHandler
     [Tag '' if true '', Text ''T'', Tag '' endif '']
   = Inl (UnknownTagError (''Unknown tag '' @ [CHR 0x27] @ ''if'' @ [CHR 0x27]))"
  by (simp add: BlockBody_parse_def example_collaborators_def example_consume_Id_def
      defaultUnknownTagHandler_def)

text \<open>
  C2, amended. \<open>BlockBody::parse\<close> recognizes exactly the tag names \<open>assign\<close>,
  \<open>comment\<close>, \<open>capture\<close>, \<open>increment\<close> and \<open>decrement\<close>, compared as they are
  written (case-sensitive). For each it constructs the tag of that kind (for
  \<open>comment\<close> and \<open>capture\<close> it also lets the tag parse its body from the tokenizer),
  appends the node and goes on. Every other name, \<open>if\<close> and any other casing among
  them, is passed to the active unknown-tag handler with the tokenizer, and \<open>parse\<close>
  stops there with the nodes made so far.
\<close>

theorem parse_dispatches_five_tag_names:
  "consume_Id K innerText = Inr (tagName, parser) \<Longrightarrow>
     (tagName \<notin> {''assign'', ''comment'', ''capture'', ''increment'', ''decrement''} \<longrightarrow>
        parse_loop K h (Tag innerText # tokenizer) nodes =
          (case h (Some tagName) tokenizer of
             Inl e \<Rightarrow> Inl e
           | Inr tokenizer' \<Rightarrow> Inr (nodes, tokenizer')))
   \<and> (tagName = ''assign'' \<and> new_Tag K AssignTag tagName parser = Inr tag \<longrightarrow>
        parse_loop K h (Tag innerText # tokenizer) nodes =
          parse_loop K h tokenizer (nodes @ [TagNode AssignTag tag]))
   \<and> (tagName = ''comment'' \<and> new_Tag K CommentTag tagName parser = Inr tag
        \<and> Tag_parse K CommentTag tag tokenizer = Inr (tag', n) \<longrightarrow>
        parse_loop K h (Tag innerText # tokenizer) nodes =
          parse_loop K h (drop n tokenizer) (nodes @ [TagNode CommentTag tag']))
   \<and> (tagName = ''capture'' \<and> new_Tag K CaptureTag tagName parser = Inr tag
        \<and> Tag_parse K CaptureTag tag tokenizer = Inr (tag', n) \<longrightarrow>
        parse_loop K h (Tag innerText # tokenizer) nodes =
          parse_loop K h (drop n tokenizer) (nodes @ [TagNode CaptureTag tag']))
   \<and> (tagName = ''increment'' \<and> new_Tag K IncrementTag tagName parser = Inr tag \<longrightarrow>
        parse_loop K h (Tag innerText # tokenizer) nodes =
          parse_loop K h tokenizer (nodes @ [TagNode IncrementTag tag]))
   \<and> (tagName = ''decrement'' \<and> new_Tag K DecrementTag tagName parser = Inr tag \<longrightarrow>
        parse_loop K h (Tag innerText # tokenizer) nodes =
          parse_loop K h tokenizer (nodes @ [TagNode DecrementTag tag]))
   \<and> (tagName = ''if'' \<longrightarrow>
        parse_loop K h (Tag innerText # tokenizer) nodes =
          (case h (Some tagName) tokenizer of
             Inl e \<Rightarrow> Inl e
           | Inr tokenizer' \<Rightarrow> Inr (nodes, tokenizer')))"
  by auto

theorem parse_dispatches_five_tag_names_witness:
  "BlockBody_parse example_collaborators defaultUnknownTagHandler [Tag ''assign x = 1'']
     = Inr ([TagNode AssignTag (''assign'', '' x = 1'')], [])
   \<and> BlockBody_parse example_collaborators defaultUnknownTagHandler [Tag ''comment'', Text ''c'']
     = Inr ([TagNode CommentTag (''comment'', []), TextNode ''c''], [])
   \<and> BlockBody_parse example_collaborators defaultUnknownTagHandler [Tag ''capture v'']
     = Inr ([TagNode CaptureTag (''capture'', '' v'')], [])
   \<and> BlockBody_parse example_collaborators defaultUnknownTagHandler [Tag ''increment v'']
     = Inr ([TagNode IncrementTag (''increment'', '' v'')], [])
   \<and> BlockBody_parse example_collaborators defaultUnknownTagHandler [Tag ''decrement v'']
     = Inr ([TagNode DecrementTag (''decrement'', '' v'')], [])
   \<and> BlockBody_parse example_collaborators defaultUnknownTagHandler [Tag ''Assign x = 1'']
     = Inl (UnknownTagError (''Unknown tag '' @ [CHR 0x27] @ ''Assign'' @ [CHR 0x27]))
   \<and> BlockBody_parse example_collaborators defaultUnknownTagHandler [Tag ''if x'']
     = Inl (UnknownTagError (''Unknown tag '' @ [CHR 0x27] @ ''if'' @ [CHR 0x27]))"
  using
    parse_dispatches_five_tag_names [where K = example_collaborators and innerText = "''assign x = 1''"
      and tagName = "''assign''" and parser = "'' x = 1''" and h = defaultUnknownTagHandler
      and tokenizer = "[]" and nodes = "[]" and tag = "(''assign'', '' x = 1'')"]
    parse_dispatches_five_tag_names [where K = example_collaborators and innerText = "''comment''"
      and tagName = "''comment''" and parser = "[]" and h = defaultUnknownTagHandler
      and tokenizer = "[Text ''c'']" and nodes = "[]" and tag = "(''comment'', [])"
      and tag' = "(''comment'', [])" and n = 0]
    parse_dispatches_five_tag_names [where K = example_collaborators and innerText = "''capture v''"
      and tagName = "''capture''" and parser = "'' v''" and h = defaultUnknownTagHandler
      and tokenizer = "[]" and nodes = "[]" and tag = "(''capture'', '' v'')"
      and tag' = "(''capture'', '' v'')" and n = 0]
    parse_dispatches_five_tag_names [where K = example_collaborators and innerText = "''increment v''"
      and tagName = "''increment''" and parser = "'' v''" and h = defaultUnknownTagHandler
      and tokenizer = "[]" and nodes = "[]" and tag = "(''increment'', '' v'')"]
    parse_dispatches_five_tag_names [where K = example_collaborators and innerText = "''decrement v''"
      and tagName = "''decrement''" and parser = "'' v''" and h = defaultUnknownTagHandler
      and tokenizer = "[]" and nodes = "[]" and tag = "(''decrement'', '' v'')"]
    parse_dispatches_five_tag_names [where K = example_collaborators and innerText = "''Assign x = 1''"
      and tagName = "''Assign''" and parser = "'' x = 1''" and h = defaultUnknownTagHandler
      and tokenizer = "[]" and nodes = "[]"]
    parse_dispatches_five_tag_names [where K = example_collaborators and innerText = "''if x''"
      and tagName = "''if''" and parser = "'' x''" and h = defaultUnknownTagHandler
      and tokenizer = "[]" and nodes = "[]"]
  by (simp add: BlockBody_parse_def example_collaborators_def example_consume_Id_def
      defaultUnknownTagHandler_def)




lemma render_loop_acc:
  "render_loop f nodes ctx (acc @ str) =
    (case render_loop f nodes ctx str of Inl e \<Rightarrow> Inl e | Inr (s, c) \<Rightarrow> Inr (acc @ s, c))"
  by (induction nodes arbitrary: ctx str) (auto split: sum.splits)

lemma render_loop_from_empty:
  "render_loop f nodes ctx str =
    (case render_loop f nodes ctx [] of Inl e \<Rightarrow> Inl e | Inr (s, c) \<Rightarrow> Inr (str @ s, c))"
  using render_loop_acc [of f nodes ctx str "[]"] by simp

lemma render_loop_append:
  "render_loop f (xs @ ys) ctx str =
     (case render_loop f xs ctx str of Inl e \<Rightarrow> Inl e | Inr (s, c) \<Rightarrow> render_loop f ys c s)"
  by (induction xs arbitrary: ctx str) (auto split: sum.splits)

lemma BlockBody_render_append:
  "BlockBody_render f (xs @ ys) ctx =
     (case BlockBody_render f xs ctx of
        Inl e \<Rightarrow> Inl e
      | Inr (s1, c1) \<Rightarrow>
          (case BlockBody_render f ys c1 of
             Inl e \<Rightarrow> Inl e
           | Inr (s2, c2) \<Rightarrow> Inr (s1 @ s2, c2)))"
proof (cases "render_loop f xs ctx []")
  case (Inl e)
  then show ?thesis by (simp add: BlockBody_render_def render_loop_append)
next
  case (Inr p)
  obtain s1 c1 where p: "p = (s1, c1)" by (cases p)
  have "render_loop f (xs @ ys) ctx [] = render_loop f ys c1 s1"
    using Inr p by (simp add: render_loop_append)
  also have "\<dots> = (case render_loop f ys c1 [] of Inl e \<Rightarrow> Inl e | Inr (s, c) \<Rightarrow> Inr (s1 @ s, c))"
    by (rule render_loop_from_empty)
  finally show ?thesis using Inr p by (simp add: BlockBody_render_def)
qed

lemma render_loop_pure:
  "(\<forall>n\<in>set nodes. \<forall>c. f n c = Inr (text_of n, c)) \<Longrightarrow>
     render_loop f nodes ctx str = Inr (str @ concat (map text_of nodes), ctx)"
  by (induction nodes arbitrary: str) simp_all

text \<open>
  C8. \<open>BlockBody::render\<close> returns the texts of its nodes concatenated in sequence
  order, nothing between them, none left out: the empty body renders the empty
  text, a single node its own text, and a body \<open>xs @ ys\<close> the text of \<open>xs\<close> followed
  by the text of \<open>ys\<close>, rendered against the context as \<open>xs\<close> left it. When no node
  changes the context, the result is the concatenation of the nodes' texts. A body
  of text nodes renders their texts; the body parsed from a single text component
  renders that text unchanged.
\<close>

theorem BlockBody_render_concatenates_in_order:
  "BlockBody_render f [] ctx = Inr ([], ctx)
   \<and> BlockBody_render f [n] ctx = f n ctx
   \<and> BlockBody_render f (xs @ ys) ctx =
       (case BlockBody_render f xs ctx of
          Inl e \<Rightarrow> Inl e
        | Inr (s1, c1) \<Rightarrow>
            (case BlockBody_render f ys c1 of
               Inl e \<Rightarrow> Inl e
             | Inr (s2, c2) \<Rightarrow> Inr (s1 @ s2, c2)))
   \<and> ((\<forall>n\<in>set nodes. \<forall>c. f n c = Inr (text_of n, c)) \<longrightarrow>
        BlockBody_render f nodes ctx = Inr (concat (map text_of nodes), ctx))
   \<and> BlockBody_render (Node_render Variable_render Tag_render) (map TextNode ts) cx
       = Inr (concat ts, cx)
   \<and> BlockBody_parse K defaultUnknownTagHandler [Text t] = Inr ([TextNode t], [])
   \<and> BlockBody_render (Node_render Variable_render Tag_render) [TextNode t] cx
       = Inr (t, cx)"
proof (intro conjI impI)
  show "BlockBody_render f [n] ctx = f n ctx"
    by (simp add: BlockBody_render_def split: sum.splits)
next
  show "BlockBody_render f (xs @ ys) ctx =
       (case BlockBody_render f xs ctx of
          Inl e \<Rightarrow> Inl e
        | Inr (s1, c1) \<Rightarrow>
            (case BlockBody_render f ys c1 of
               Inl e \<Rightarrow> Inl e
             | Inr (s2, c2) \<Rightarrow> Inr (s1 @ s2, c2)))"
    by (rule BlockBody_render_append)
next
  assume "\<forall>n\<in>set nodes. \<forall>c. f n c = Inr (text_of n, c)"
  then show "BlockBody_render f nodes ctx = Inr (concat (map text_of nodes), ctx)"
    unfolding BlockBody_render_def using render_loop_pure [of nodes f text_of ctx "[]"] by simp
next
  have "\<forall>n\<in>set (map TextNode ts). \<forall>c. Node_render Variable_render Tag_render n c
          = Inr ((\<lambda>n. case n of TextNode t \<Rightarrow> t | _ \<Rightarrow> []) n, c)"
    by auto
  from render_loop_pure [OF this, of cx "[]"]
  show "BlockBody_render (Node_render Variable_render Tag_render) (map TextNode ts) cx
       = Inr (concat ts, cx)"
    by (simp add: BlockBody_render_def comp_def)
qed (simp_all add: BlockBody_render_def BlockBody_parse_def defaultUnknownTagHandler_def)

theorem BlockBody_render_concatenates_in_order_witness:
  "BlockBody_render (Node_render (\<lambda>v c. Inr ([], c)) (\<lambda>k t c. Inr ([], c)))
     [TextNode ''Hello, '', TextNode ''world'' :: (string, string) Node] kNilContext
   = Inr (''Hello, world'', kNilContext)"
  using BlockBody_render_concatenates_in_order
    [where f = "Node_render (\<lambda>v c. Inr ([], c)) (\<lambda>k t c. Inr ([], c))"
      and nodes = "[TextNode ''Hello, '', TextNode ''world'' :: (string, string) Node]"
      and text_of = "\<lambda>n. case n of TextNode t \<Rightarrow> t | _ \<Rightarrow> []"
      and ctx = kNilContext, THEN conjunct2, THEN conjunct2, THEN conjunct2, THEN conjunct1]
  by simp

end
